theory Spec2Isabelle
  imports Main
begin

section \<open>Outcome model (\<^verbatim>\<open>srcflib/plumbing/common.py\<close>)\<close>

text \<open>
  Modelled from the spec: \<^verbatim>\<open>State\<close>, \<^verbatim>\<open>Result\<close> and \<^verbatim>\<open>Password\<close> are imported by
  \<^verbatim>\<open>mysql.py\<close> from \<^verbatim>\<open>.common\<close>, whose source is not present. The spec describes a
  result as a state tag in {success, unchanged} with an optional payload, and a password
  as an opaque generated secret whose text is obtained with \<^verbatim>\<open>str\<close>.
\<close>

datatype State = success | unchanged

datatype 'a Result = Result (state: State) (payload: "'a option")

datatype Password = Password (str: string)

text \<open>
  Exceptions are values. \<open>LookupError\<close> is the only exception \<^verbatim>\<open>mysql.py\<close> raises
  itself; its message is a fixed template around the user name, which is what the model
  keeps. \<open>IndexError\<close> and \<open>ValueError\<close> are what \<^verbatim>\<open>str.format\<close> and row indexing raise.
  \<open>DriverError\<close> stands for anything raised inside \<^verbatim>\<open>cursor.execute\<close>, which no function
  of the module catches.
\<close>

datatype error =
    LookupError string
  | IndexError
  | ValueError
  | UnmodelledField
  | DriverError string

section \<open>Strings\<close>

definition backtick :: char where
  "backtick = CHR 0x60"

definition apostrophe :: char where
  "apostrophe = CHR 0x27"

text \<open>
  \<^verbatim>\<open>s.replace(old, new)\<close> for a one-character \<open>old\<close>: occurrences of a single character
  cannot overlap, so every occurrence is substituted independently.
\<close>

definition replace :: "string \<Rightarrow> char \<Rightarrow> string \<Rightarrow> string" where
  "replace s old new = concat (map (\<lambda>c. if c = old then new else [c]) s)"

text \<open>
  \<^verbatim>\<open>template.format(*params)\<close> with string parameters, scanning left to right as
  Python's formatter does: \<^verbatim>\<open>{{\<close> and \<^verbatim>\<open>}}\<close> are escaped braces, \<^verbatim>\<open>{}\<close> consumes the next
  positional parameter (\<open>IndexError\<close> when none is left; surplus parameters are
  ignored), a lone brace is a \<open>ValueError\<close>. Parameters are inserted verbatim and are not
  scanned again. Replacement fields with a name, an index, a conversion or a format
  specification do not occur in the templates of \<^verbatim>\<open>mysql.py\<close>; the model answers
  \<open>UnmodelledField\<close> for them instead of guessing.
\<close>

fun str_format :: "string \<Rightarrow> string list \<Rightarrow> error + string" where
  "str_format [] ps = Inr []"
| "str_format [c] ps =
     (if c = CHR ''{'' \<or> c = CHR ''}'' then Inl ValueError else Inr [c])"
| "str_format (c # d # s) ps =
     (if c = CHR ''{'' then
        (if d = CHR ''{'' then map_sum id ((#) c) (str_format s ps)
         else if d = CHR ''}'' then
           (case ps of
              [] \<Rightarrow> Inl IndexError
            | p # ps' \<Rightarrow> map_sum id ((@) p) (str_format s ps'))
         else Inl UnmodelledField)
      else if c = CHR ''}'' then
        (if d = CHR ''}'' then map_sum id ((#) c) (str_format s ps) else Inl ValueError)
      else map_sum id ((#) c) (str_format (d # s) ps))"

section \<open>MySQL user and database management (\<^verbatim>\<open>srcflib/plumbing/mysql.py\<close>)\<close>

subsection \<open>The cursor, the logger and the password source\<close>

text \<open>
  The PyMySQL cursor is an external collaborator. Its state is an arbitrary type \<open>'c\<close>;
  \<open>execute\<close> takes the statement text and the bound parameters and returns the number
  of affected rows (\<open>Inr\<close>) or raises (\<open>Inl\<close>, with a description of the exception),
  \<open>rows\<close> hands out the rows that iterating the cursor yields.
\<close>

record 'c driver =
  execute :: "'c \<Rightarrow> string \<Rightarrow> string list \<Rightarrow> (string + int) \<times> 'c"
  rows :: "'c \<Rightarrow> string list list \<times> 'c"

text \<open>An argument of \<^verbatim>\<open>query\<close> has type \<^verbatim>\<open>Union[str, Password]\<close>.\<close>

datatype arg = Str string | Pw Password

text \<open>
  What a call does to the outside is recorded in order: \<open>Debug sql args\<close> is the call
  \<^verbatim>\<open>LOG.debug("Query: %r %% %r", sql, args)\<close> with the objects it is handed,
  \<open>Execute sql params\<close> is the call \<^verbatim>\<open>cursor.execute(sql, params)\<close>.
\<close>

datatype event = Debug string "arg list" | Execute string "string list"

text \<open>
  The state the module works on: the cursor, the trace of events, and the source of
  randomness. \<open>entropy\<close> is the sequence of passwords that will be generated and \<open>drawn\<close>
  counts how many have been taken.
\<close>

record 'c world =
  cursor :: 'c
  trace :: "event list"
  entropy :: "nat \<Rightarrow> Password"
  drawn :: nat

text \<open>
  Modelled from the spec: \<^verbatim>\<open>Password.new\<close> lives in the absent \<^verbatim>\<open>common.py\<close>. The spec says
  that a password is created fresh, from a random source, at every call: the call takes
  the next element of \<open>entropy\<close>.
\<close>

definition Password_new :: "'c world \<Rightarrow> Password \<times> 'c world" where
  "Password_new w = (entropy w (drawn w), w\<lparr>drawn := Suc (drawn w)\<rparr>)"

subsection \<open>Helpers\<close>

text \<open>
  Evaluating a sequence of computations that may raise: the first exception wins.
\<close>

fun collect :: "(error + 'a) list \<Rightarrow> error + 'a list" where
  "collect [] = Inr []"
| "collect (r # rs) =
     (case r of
        Inl e \<Rightarrow> Inl e
      | Inr x \<Rightarrow> (case collect rs of Inl e \<Rightarrow> Inl e | Inr xs \<Rightarrow> Inr (x # xs)))"

text \<open>
  \<^verbatim>\<open>_format\<close> and \<^verbatim>\<open>_truthy\<close> (an Isabelle name cannot start with an underscore).
  The generator of quoted literals is exhausted by the \<^verbatim>\<open>*params\<close> unpacking before the
  template is formatted.
\<close>

definition priv_format :: "string \<Rightarrow> string list \<Rightarrow> error + string" where
  "priv_format sql literals =
     (case collect (map (\<lambda>lit. str_format ''`{}`'' [replace lit backtick ''``'']) literals) of
        Inl e \<Rightarrow> Inl e
      | Inr params \<Rightarrow> str_format sql params)"

definition priv_truthy :: "bool \<Rightarrow> 'a Result" where
  "priv_truthy test = (if test then Result success None else Result unchanged None)"

subsection \<open>Running a statement\<close>

definition query ::
  "'c driver \<Rightarrow> 'c world \<Rightarrow> string \<Rightarrow> arg list \<Rightarrow> (error + bool) \<times> 'c world" where
  "query drv w sql args =
     (let w1 = w\<lparr>trace := trace w @ [Debug sql args]\<rparr>;
          params = map (\<lambda>a. case a of Pw p \<Rightarrow> str p | Str s \<Rightarrow> s) args;
          (r, c) = execute drv (cursor w1) sql params;
          w2 = w1\<lparr>cursor := c, trace := trace w1 @ [Execute sql params]\<rparr>
      in (case r of Inl m \<Rightarrow> Inl (DriverError m) | Inr n \<Rightarrow> Inr (n \<noteq> 0), w2))"

subsection \<open>Statement texts\<close>

definition create_user_sql :: string where
  "create_user_sql = ''CREATE USER IF NOT EXISTS %s@'%%' IDENTIFIED BY %s''"

definition set_password_sql :: string where
  "set_password_sql = ''SET PASSWORD FOR %s@'%%' = %s''"

definition drop_user_sql :: string where
  "drop_user_sql = ''DROP USER IF EXISTS %s@'%%'' @ [apostrophe]"

definition grant_sql :: string where
  "grant_sql = ''GRANT ALL ON {}.* TO %s@'%%'' @ [apostrophe]"

definition revoke_sql :: string where
  "revoke_sql = ''REVOKE ALL ON {}.* FROM %s@'%%'' @ [apostrophe]"

definition create_database_sql :: string where
  "create_database_sql = ''CREATE DATABASE IF NOT EXISTS {}''"

definition show_databases_sql :: string where
  "show_databases_sql = ''SHOW DATABASES LIKE %s''"

definition drop_database_sql :: string where
  "drop_database_sql = ''DROP DATABASE IF EXISTS {}''"

subsection \<open>Users\<close>

definition create_user ::
  "'c driver \<Rightarrow> 'c world \<Rightarrow> string \<Rightarrow> (error + Password Result) \<times> 'c world" where
  "create_user drv w name =
     (let (passwd, w1) = Password_new w
      in case query drv w1 create_user_sql [Str name, Pw passwd] of
           (Inl e, w2) \<Rightarrow> (Inl e, w2)
         | (Inr new, w2) \<Rightarrow>
             (Inr (if new then Result success (Some passwd) else Result unchanged None), w2))"

definition reset_password ::
  "'c driver \<Rightarrow> 'c world \<Rightarrow> string \<Rightarrow> (error + Password Result) \<times> 'c world" where
  "reset_password drv w name =
     (let (passwd, w1) = Password_new w
      in case query drv w1 set_password_sql [Str name, Pw passwd] of
           (Inl e, w2) \<Rightarrow> (Inl e, w2)
         | (Inr reset, w2) \<Rightarrow>
             (if reset then (Inr (Result success (Some passwd)), w2)
              else (Inl (LookupError name), w2)))"

definition drop_user ::
  "'c driver \<Rightarrow> 'c world \<Rightarrow> string \<Rightarrow> (error + 'a Result) \<times> 'c world" where
  "drop_user drv w name =
     (case query drv w drop_user_sql [Str name] of
        (Inl e, w1) \<Rightarrow> (Inl e, w1)
      | (Inr dropped, w1) \<Rightarrow> (Inr (priv_truthy dropped), w1))"

subsection \<open>Privileges\<close>

definition grant_database ::
  "'c driver \<Rightarrow> 'c world \<Rightarrow> string \<Rightarrow> string \<Rightarrow> (error + 'a Result) \<times> 'c world" where
  "grant_database drv w user db =
     (case priv_format grant_sql [db] of
        Inl e \<Rightarrow> (Inl e, w)
      | Inr sql \<Rightarrow>
          (case query drv w sql [Str user] of
             (Inl e, w1) \<Rightarrow> (Inl e, w1)
           | (Inr changed, w1) \<Rightarrow> (Inr (priv_truthy changed), w1)))"

definition revoke_database ::
  "'c driver \<Rightarrow> 'c world \<Rightarrow> string \<Rightarrow> string \<Rightarrow> (error + 'a Result) \<times> 'c world" where
  "revoke_database drv w user db =
     (case priv_format revoke_sql [db] of
        Inl e \<Rightarrow> (Inl e, w)
      | Inr sql \<Rightarrow>
          (case query drv w sql [Str user] of
             (Inl e, w1) \<Rightarrow> (Inl e, w1)
           | (Inr changed, w1) \<Rightarrow> (Inr (priv_truthy changed), w1)))"

subsection \<open>Databases\<close>

definition create_database ::
  "'c driver \<Rightarrow> 'c world \<Rightarrow> string \<Rightarrow> (error + 'a Result) \<times> 'c world" where
  "create_database drv w name =
     (case priv_format create_database_sql [name] of
        Inl e \<Rightarrow> (Inl e, w)
      | Inr sql \<Rightarrow>
          (case query drv w sql [] of
             (Inl e, w1) \<Rightarrow> (Inl e, w1)
           | (Inr _, w1) \<Rightarrow> (Inr (Result success None), w1)))"

text \<open>
  \<^verbatim>\<open>[db[0] for db in cursor]\<close>: indexing an empty row raises \<open>IndexError\<close>.
\<close>

definition first_column :: "string list \<Rightarrow> error + string" where
  "first_column db = (case db of [] \<Rightarrow> Inl IndexError | x # _ \<Rightarrow> Inr x)"

definition list_databases ::
  "'c driver \<Rightarrow> 'c world \<Rightarrow> string \<Rightarrow> (error + string list) \<times> 'c world" where
  "list_databases drv w like =
     (case query drv w show_databases_sql [Str like] of
        (Inl e, w1) \<Rightarrow> (Inl e, w1)
      | (Inr _, w1) \<Rightarrow>
          (let (dbs, c) = rows drv (cursor w1)
           in (collect (map first_column dbs), w1\<lparr>cursor := c\<rparr>)))"

definition drop_database ::
  "'c driver \<Rightarrow> 'c world \<Rightarrow> string \<Rightarrow> (error + 'a Result) \<times> 'c world" where
  "drop_database drv w name =
     (case priv_format drop_database_sql [name] of
        Inl e \<Rightarrow> (Inl e, w)
      | Inr sql \<Rightarrow>
          (case query drv w sql [] of
             (Inl e, w1) \<Rightarrow> (Inl e, w1)
           | (Inr _, w1) \<Rightarrow> (Inr (Result success None), w1)))"

section \<open>Group membership scripts (\<^verbatim>\<open>srcflib/scripts/group.py\<close>)\<close>

text \<open>
  \<^verbatim>\<open>Member\<close> and \<^verbatim>\<open>Society\<close> come from the external schema; the scripts read only the
  fields below. The \<^verbatim>\<open>@entrypoint\<close> decorator resolves the command-line arguments into
  these objects before the body runs; the model is of the body.
\<close>

record Member =
  crsid :: string
  name :: string

record Society =
  society :: string
  description :: string
  admin_crsids :: "string set"

text \<open>
  What a script does to the outside, in order: a warning printed by \<^verbatim>\<open>error\<close>, a prompt
  put to the operator by \<^verbatim>\<open>confirm\<close>, and the calls into \<^verbatim>\<open>tasks.membership\<close>.
\<close>

datatype script_event =
    Warned string
  | Asked string
  | Add_society_admin Member Society
  | Remove_society_admin Member Society
  | Delete_society Society

fun is_mutation :: "script_event \<Rightarrow> bool" where
  "is_mutation (Warned _) = False"
| "is_mutation (Asked _) = False"
| "is_mutation (Add_society_admin _ _) = True"
| "is_mutation (Remove_society_admin _ _) = True"
| "is_mutation (Delete_society _) = True"

text \<open>
  \<open>sess\<close> is the membership record store behind the ORM session, \<open>transcript\<close> the
  events so far.
\<close>

record 's desk =
  sess :: 's
  transcript :: "script_event list"

text \<open>
  The functions of \<^verbatim>\<open>tasks.membership\<close> are called, not implemented, by the scripts:
  they are parameters, acting on the record store.
\<close>

record 's membership =
  add_society_admin :: "'s \<Rightarrow> Member \<Rightarrow> Society \<Rightarrow> 's"
  remove_society_admin :: "'s \<Rightarrow> Member \<Rightarrow> Society \<Rightarrow> 's"
  delete_society :: "'s \<Rightarrow> Society \<Rightarrow> 's"

datatype exit = Finished | Aborted

text \<open>
  Modelled from the spec: \<^verbatim>\<open>confirm\<close> and \<^verbatim>\<open>error\<close> live in the absent
  \<^verbatim>\<open>scripts/utils.py\<close>. The spec says that \<^verbatim>\<open>confirm(prompt)\<close> blocks for an
  interactive yes/no and aborts the process on "no", and that \<^verbatim>\<open>error(message)\<close>
  prints a non-fatal warning to the operator. The operator is a function from the
  prompt to the answer; the first component of \<open>confirm\<close> tells whether the call
  returned (\<open>True\<close>) or aborted the process (\<open>False\<close>), and a script whose process was
  aborted exits with \<open>Aborted\<close> there.
\<close>

definition error :: "string \<Rightarrow> 's desk \<Rightarrow> 's desk" where
  "error message d = d\<lparr>transcript := transcript d @ [Warned message]\<rparr>"

definition confirm :: "(string \<Rightarrow> bool) \<Rightarrow> string \<Rightarrow> 's desk \<Rightarrow> bool \<times> 's desk" where
  "confirm operator prompt d =
     (operator prompt, d\<lparr>transcript := transcript d @ [Asked prompt]\<rparr>)"

definition grant ::
  "'s membership \<Rightarrow> (string \<Rightarrow> bool) \<Rightarrow> 's desk \<Rightarrow> Member \<Rightarrow> Society \<Rightarrow> exit \<times> 's desk" where
  "grant ms operator d member soc =
     (let d1 = (if crsid member \<in> admin_crsids soc
                then error (''Warning: '' @ crsid member @ '' is already an admin of ''
                            @ society soc) d
                else d);
          (yes, d2) = confirm operator
                        (''Add '' @ name member @ '' to '' @ description soc @ ''?'') d1
      in if yes
         then (Finished,
               d2\<lparr>sess := add_society_admin ms (sess d2) member soc,
                  transcript := transcript d2 @ [Add_society_admin member soc]\<rparr>)
         else (Aborted, d2))"

definition revoke ::
  "'s membership \<Rightarrow> (string \<Rightarrow> bool) \<Rightarrow> 's desk \<Rightarrow> Member \<Rightarrow> Society \<Rightarrow> exit \<times> 's desk" where
  "revoke ms operator d member soc =
     (let d1 = (if crsid member \<notin> admin_crsids soc
                then error (''Warning: '' @ crsid member @ '' is not an admin of ''
                            @ society soc) d
                else if admin_crsids soc = {crsid member}
                then error ''Warning: removing the only remaining admin'' d
                else d);
          (yes, d2) = confirm operator
                        (''Remove '' @ name member @ '' from '' @ description soc @ ''?'') d1
      in if yes
         then (Finished,
               d2\<lparr>sess := remove_society_admin ms (sess d2) member soc,
                  transcript := transcript d2 @ [Remove_society_admin member soc]\<rparr>)
         else (Aborted, d2))"

definition delete ::
  "'s membership \<Rightarrow> (string \<Rightarrow> bool) \<Rightarrow> 's desk \<Rightarrow> Society \<Rightarrow> exit \<times> 's desk" where
  "delete ms operator d soc =
     (let (yes, d1) = confirm operator (''Delete '' @ description soc @ ''?'') d
      in if yes
         then (Finished,
               d1\<lparr>sess := delete_society ms (sess d1) soc,
                  transcript := transcript d1 @ [Delete_society soc]\<rparr>)
         else (Aborted, d1))"

section \<open>Notions used to state the properties\<close>

subsection \<open>Quoted identifiers\<close>

text \<open>
  The quoted form the spec describes: the name with every backtick doubled, between
  backticks.
\<close>

definition quote_identifier :: "string \<Rightarrow> string" where
  "quote_identifier lit = [backtick] @ replace lit backtick [backtick, backtick] @ [backtick]"

text \<open>
  Reading a quoted identifier the way the MySQL lexer does: after the opening backtick,
  a doubled backtick is one backtick of the name and a single backtick ends the
  identifier. The result is the name and the text that follows the identifier; \<open>None\<close>
  when the text does not start with a terminated quoted identifier.
\<close>

fun read_quoted :: "string \<Rightarrow> (string \<times> string) option" where
  "read_quoted [] = None"
| "read_quoted [c] = (if c = backtick then Some ([], []) else None)"
| "read_quoted (c # d # s) =
     (if c = backtick then
        (if d = backtick then map_option (apfst ((#) backtick)) (read_quoted s)
         else Some ([], d # s))
      else map_option (apfst ((#) c)) (read_quoted (d # s)))"

definition read_identifier :: "string \<Rightarrow> (string \<times> string) option" where
  "read_identifier s =
     (case s of [] \<Rightarrow> None | c # r \<Rightarrow> if c = backtick then read_quoted r else None)"

subsection \<open>The statements after formatting\<close>

text \<open>
  The text each privilege and database operation is expected to hand to the cursor: the
  template with the quoted database name in place of the replacement field.
\<close>

definition grant_statement :: "string \<Rightarrow> string" where
  "grant_statement db = ''GRANT ALL ON '' @ quote_identifier db @ ''.* TO %s@'%%'' @ [apostrophe]"

definition revoke_statement :: "string \<Rightarrow> string" where
  "revoke_statement db = ''REVOKE ALL ON '' @ quote_identifier db @ ''.* FROM %s@'%%'' @ [apostrophe]"

definition create_database_statement :: "string \<Rightarrow> string" where
  "create_database_statement db = ''CREATE DATABASE IF NOT EXISTS '' @ quote_identifier db"

definition drop_database_statement :: "string \<Rightarrow> string" where
  "drop_database_statement db = ''DROP DATABASE IF EXISTS '' @ quote_identifier db"

subsection \<open>The driver's parameter substitution\<close>

text \<open>
  \<^verbatim>\<open>cursor.execute(sql, args)\<close> of PyMySQL sends \<^verbatim>\<open>sql % tuple(literals)\<close> to the server
  whenever \<^verbatim>\<open>args\<close> is not \<^verbatim>\<open>None\<close>, and \<open>query\<close> always passes a list. The
  statement texts of \<^verbatim>\<open>mysql.py\<close> are written for this substitution: \<^verbatim>\<open>%s\<close> marks a bound
  parameter and the percent sign of the host pattern is written \<^verbatim>\<open>%%\<close>.
  \<open>percent_format\<close> is Python's \<^verbatim>\<open>%\<close> on a string and a tuple of strings for these two
  conversions, scanning left to right: \<^verbatim>\<open>%%\<close> gives one percent sign, \<^verbatim>\<open>%s\<close> consumes the
  next element of the tuple (\<^verbatim>\<open>TypeError\<close>, not enough arguments, when none is left), a
  percent sign at the very end is a \<^verbatim>\<open>ValueError\<close> (incomplete format), and elements
  left over at the end are a \<^verbatim>\<open>TypeError\<close> (not all arguments converted). Any other
  conversion is answered with \<open>UnmodelledConversion\<close>.
\<close>

datatype percent_error =
    NotEnoughArguments
  | NotAllConverted
  | IncompleteFormat
  | UnmodelledConversion

fun percent_format :: "string \<Rightarrow> string list \<Rightarrow> percent_error + string" where
  "percent_format [] args = (case args of [] \<Rightarrow> Inr [] | _ # _ \<Rightarrow> Inl NotAllConverted)"
| "percent_format [c] args =
     (if c = CHR ''%'' then Inl IncompleteFormat
      else map_sum id ((#) c) (percent_format [] args))"
| "percent_format (c # d # s) args =
     (if c = CHR ''%'' then
        (if d = CHR ''%'' then map_sum id ((#) c) (percent_format s args)
         else if d = CHR ''s'' then
           (case args of
              [] \<Rightarrow> Inl NotEnoughArguments
            | a # args' \<Rightarrow> map_sum id ((@) a) (percent_format s args'))
         else Inl UnmodelledConversion)
      else map_sum id ((#) c) (percent_format (d # s) args))"

subsection \<open>Projections of the trace\<close>

fun executed :: "event list \<Rightarrow> (string \<times> string list) list" where
  "executed [] = []"
| "executed (Execute sql params # es) = (sql, params) # executed es"
| "executed (Debug _ _ # es) = executed es"

fun logged :: "event list \<Rightarrow> (string \<times> arg list) list" where
  "logged [] = []"
| "logged (Debug sql args # es) = (sql, args) # logged es"
| "logged (Execute _ _ # es) = logged es"

fun warnings :: "script_event list \<Rightarrow> string list" where
  "warnings [] = []"
| "warnings (Warned msg # es) = msg # warnings es"
| "warnings (e # es) = warnings es"

subsection \<open>The prompts of the scripts\<close>

definition grant_prompt :: "Member \<Rightarrow> Society \<Rightarrow> string" where
  "grant_prompt m so = ''Add '' @ name m @ '' to '' @ description so @ ''?''"

definition revoke_prompt :: "Member \<Rightarrow> Society \<Rightarrow> string" where
  "revoke_prompt m so = ''Remove '' @ name m @ '' from '' @ description so @ ''?''"

definition delete_prompt :: "Society \<Rightarrow> string" where
  "delete_prompt so = ''Delete '' @ description so @ ''?''"

subsection \<open>What the server is expected to report\<close>

text \<open>
  The module relies on the affected-row count of the user statements. The expectation
  is stated against an abstraction \<open>accounts\<close> of the cursor's server: the users that
  exist, each with its current password. A statement on a user that is in the state the
  statement asks for reports zero rows and changes nothing.
\<close>

definition creates_if_absent :: "('c \<Rightarrow> string \<rightharpoonup> string) \<Rightarrow> 'c driver \<Rightarrow> bool" where
  "creates_if_absent accounts drv =
     (\<forall>c u pw. case execute drv c create_user_sql [u, pw] of
        (r, c') \<Rightarrow>
          (if u \<in> dom (accounts c) then r = Inr 0 \<and> accounts c' = accounts c
           else (\<exists>n. r = Inr n \<and> n \<noteq> 0) \<and> accounts c' = (accounts c)(u \<mapsto> pw)))"


definition drops_if_present :: "('c \<Rightarrow> string \<rightharpoonup> string) \<Rightarrow> 'c driver \<Rightarrow> bool" where
  "drops_if_present accounts drv =
     (\<forall>c u. case execute drv c drop_user_sql [u] of
        (r, c') \<Rightarrow>
          (if u \<in> dom (accounts c)
           then (\<exists>n. r = Inr n \<and> n \<noteq> 0) \<and> accounts c' = (accounts c)(u := None)
           else r = Inr 0 \<and> accounts c' = accounts c))"

subsection \<open>An in-memory server\<close>

text \<open>
  A server that keeps the accounts in a map and reports as expected above. It shows
  that the expectations can be met and serves to run the operations on concrete input.
  Privilege and database statements report the row count the server was set up with.
\<close>

record server =
  users :: "string \<rightharpoonup> string"
  report :: int

definition mem_execute :: "server \<Rightarrow> string \<Rightarrow> string list \<Rightarrow> (string + int) \<times> server" where
  "mem_execute c sql params =
     (if sql = create_user_sql then
        (case params of
           [u, pw] \<Rightarrow>
             (if users c u = None then (Inr 1, c\<lparr>users := (users c)(u \<mapsto> pw)\<rparr>)
              else (Inr 0, c))
         | _ \<Rightarrow> (Inl ''wrong number of parameters'', c))
      else if sql = set_password_sql then
        (case params of
           [u, pw] \<Rightarrow>
             (if users c u = None then (Inr 0, c)
              else (Inr 1, c\<lparr>users := (users c)(u \<mapsto> pw)\<rparr>))
         | _ \<Rightarrow> (Inl ''wrong number of parameters'', c))
      else if sql = drop_user_sql then
        (case params of
           [u] \<Rightarrow>
             (if users c u = None then (Inr 0, c)
              else (Inr 1, c\<lparr>users := (users c)(u := None)\<rparr>))
         | _ \<Rightarrow> (Inl ''wrong number of parameters'', c))
      else (Inr (report c), c))"

definition mem_driver :: "server driver" where
  "mem_driver = \<lparr>execute = mem_execute, rows = (\<lambda>c. ([], c))\<rparr>"

definition mem_world :: "(string \<rightharpoonup> string) \<Rightarrow> int \<Rightarrow> server world" where
  "mem_world us n =
     \<lparr>cursor = \<lparr>users = us, report = n\<rparr>, trace = [],
      entropy = (\<lambda>i. Password (''pw'' @ replicate i CHR ''x'')), drawn = 0\<rparr>"

text \<open>A membership collaborator that keeps the admin sets of societies by short name.\<close>

definition mem_membership :: "(string \<Rightarrow> string set) membership" where
  "mem_membership =
     \<lparr>add_society_admin = (\<lambda>st m so. st(society so := insert (crsid m) (st (society so)))),
      remove_society_admin = (\<lambda>st m so. st(society so := st (society so) - {crsid m})),
      delete_society = (\<lambda>st so. st(society so := {}))\<rparr>"

text \<open>A member, a society with a given admin set, and an empty desk.\<close>

definition alice :: Member where
  "alice = \<lparr>crsid = ''abc12'', name = ''Alice''\<rparr>"

definition chess :: "string set \<Rightarrow> Society" where
  "chess admins = \<lparr>society = ''chess'', description = ''Chess Club'', admin_crsids = admins\<rparr>"

definition mem_desk :: "(string \<Rightarrow> string set) desk" where
  "mem_desk = \<lparr>sess = (\<lambda>_. {}), transcript = []\<rparr>"

section \<open>Basic facts\<close>

lemma query_eq:
  "query drv w sql args =
     (let params = map (\<lambda>a. case a of Pw p \<Rightarrow> str p | Str s \<Rightarrow> s) args in
      (case fst (execute drv (cursor w) sql params) of
         Inl m \<Rightarrow> Inl (DriverError m)
       | Inr n \<Rightarrow> Inr (n \<noteq> 0),
       w\<lparr>cursor := snd (execute drv (cursor w) sql params),
         trace := trace w @ [Debug sql args, Execute sql params]\<rparr>))"
  by (simp add: query_def Let_def split: prod.splits)

lemma create_user_eq:
  "create_user drv w u =
     (case fst (execute drv (cursor w) create_user_sql [u, str (entropy w (drawn w))]) of
        Inl m \<Rightarrow> Inl (DriverError m)
      | Inr n \<Rightarrow> Inr (if n \<noteq> 0 then Result success (Some (entropy w (drawn w)))
                     else Result unchanged None),
      w\<lparr>cursor := snd (execute drv (cursor w) create_user_sql [u, str (entropy w (drawn w))]),
        trace := trace w @ [Debug create_user_sql [Str u, Pw (entropy w (drawn w))],
                            Execute create_user_sql [u, str (entropy w (drawn w))]],
        drawn := Suc (drawn w)\<rparr>)"
  by (simp add: create_user_def Password_new_def query_eq Let_def split: sum.splits)

lemma reset_password_eq:
  "reset_password drv w u =
     (case fst (execute drv (cursor w) set_password_sql [u, str (entropy w (drawn w))]) of
        Inl m \<Rightarrow> Inl (DriverError m)
      | Inr n \<Rightarrow> (if n \<noteq> 0 then Inr (Result success (Some (entropy w (drawn w))))
                     else Inl (LookupError u)),
      w\<lparr>cursor := snd (execute drv (cursor w) set_password_sql [u, str (entropy w (drawn w))]),
        trace := trace w @ [Debug set_password_sql [Str u, Pw (entropy w (drawn w))],
                            Execute set_password_sql [u, str (entropy w (drawn w))]],
        drawn := Suc (drawn w)\<rparr>)"
  by (simp add: reset_password_def Password_new_def query_eq Let_def split: sum.splits)

lemma drop_user_eq:
  "drop_user drv w u =
     (case fst (execute drv (cursor w) drop_user_sql [u]) of
        Inl m \<Rightarrow> Inl (DriverError m)
      | Inr n \<Rightarrow> Inr (Result (if n \<noteq> 0 then success else unchanged) None),
      w\<lparr>cursor := snd (execute drv (cursor w) drop_user_sql [u]),
        trace := trace w @ [Debug drop_user_sql [Str u], Execute drop_user_sql [u]]\<rparr>)"
  by (simp add: drop_user_def priv_truthy_def query_eq Let_def split: sum.splits)

lemma executed_append: "executed (xs @ ys) = executed xs @ executed ys"
  by (induction xs rule: executed.induct) simp_all

lemma logged_append: "logged (xs @ ys) = logged xs @ logged ys"
  by (induction xs rule: logged.induct) simp_all

lemma sql_distinct:
  "create_user_sql \<noteq> set_password_sql" "create_user_sql \<noteq> drop_user_sql"
  "set_password_sql \<noteq> drop_user_sql" "set_password_sql \<noteq> create_user_sql"
  "drop_user_sql \<noteq> create_user_sql" "drop_user_sql \<noteq> set_password_sql"
  by (simp_all add: create_user_sql_def set_password_sql_def drop_user_sql_def)

lemma mem_creates: "creates_if_absent users mem_driver"
  by (auto simp: creates_if_absent_def mem_driver_def mem_execute_def)


lemma mem_drops: "drops_if_present users mem_driver"
  by (auto simp: drops_if_present_def mem_driver_def mem_execute_def sql_distinct)

lemma creates_if_absentD:
  assumes "creates_if_absent accounts drv"
  shows "u \<in> dom (accounts c) \<Longrightarrow> fst (execute drv c create_user_sql [u, pw]) = Inr 0"
    and "u \<in> dom (accounts c) \<Longrightarrow> accounts (snd (execute drv c create_user_sql [u, pw])) = accounts c"
    and "u \<notin> dom (accounts c) \<Longrightarrow> \<exists>n. fst (execute drv c create_user_sql [u, pw]) = Inr n \<and> n \<noteq> 0"
    and "u \<notin> dom (accounts c) \<Longrightarrow> accounts (snd (execute drv c create_user_sql [u, pw])) = (accounts c)(u \<mapsto> pw)"
  using assms [unfolded creates_if_absent_def, rule_format, of u c pw]
  by (auto split: prod.splits if_splits)

lemma format_quote: "str_format ''`{}`'' [x] = Inr ([backtick] @ x @ [backtick])"
  by (simp add: backtick_def)

lemma priv_format_grant:
  "priv_format grant_sql [db] =
     Inr (''GRANT ALL ON '' @ quote_identifier db @ ''.* TO %s@'%%'' @ [apostrophe])"
  by (simp add: priv_format_def grant_sql_def quote_identifier_def backtick_def apostrophe_def)

lemma priv_format_revoke:
  "priv_format revoke_sql [db] =
     Inr (''REVOKE ALL ON '' @ quote_identifier db @ ''.* FROM %s@'%%'' @ [apostrophe])"
  by (simp add: priv_format_def revoke_sql_def quote_identifier_def backtick_def apostrophe_def)

lemma priv_format_create_database:
  "priv_format create_database_sql [db] =
     Inr (''CREATE DATABASE IF NOT EXISTS '' @ quote_identifier db)"
  by (simp add: priv_format_def create_database_sql_def quote_identifier_def backtick_def)

lemma priv_format_drop_database:
  "priv_format drop_database_sql [db] = Inr (''DROP DATABASE IF EXISTS '' @ quote_identifier db)"
  by (simp add: priv_format_def drop_database_sql_def quote_identifier_def backtick_def)

lemma grant_database_eq:
  "grant_database drv w user db =
     (case fst (execute drv (cursor w) (grant_statement db) [user]) of
        Inl m \<Rightarrow> Inl (DriverError m)
      | Inr n \<Rightarrow> Inr (Result (if n \<noteq> 0 then success else unchanged) None),
      w\<lparr>cursor := snd (execute drv (cursor w) (grant_statement db) [user]),
        trace := trace w @ [Debug (grant_statement db) [Str user],
                            Execute (grant_statement db) [user]]\<rparr>)"
  by (simp add: grant_database_def priv_format_grant grant_statement_def priv_truthy_def
      query_eq Let_def split: sum.splits)

lemma revoke_database_eq:
  "revoke_database drv w user db =
     (case fst (execute drv (cursor w) (revoke_statement db) [user]) of
        Inl m \<Rightarrow> Inl (DriverError m)
      | Inr n \<Rightarrow> Inr (Result (if n \<noteq> 0 then success else unchanged) None),
      w\<lparr>cursor := snd (execute drv (cursor w) (revoke_statement db) [user]),
        trace := trace w @ [Debug (revoke_statement db) [Str user],
                            Execute (revoke_statement db) [user]]\<rparr>)"
  by (simp add: revoke_database_def priv_format_revoke revoke_statement_def priv_truthy_def
      query_eq Let_def split: sum.splits)

lemma create_database_eq:
  "create_database drv w db =
     (case fst (execute drv (cursor w) (create_database_statement db) []) of
        Inl m \<Rightarrow> Inl (DriverError m)
      | Inr n \<Rightarrow> Inr (Result success None),
      w\<lparr>cursor := snd (execute drv (cursor w) (create_database_statement db) []),
        trace := trace w @ [Debug (create_database_statement db) [],
                            Execute (create_database_statement db) []]\<rparr>)"
  by (simp add: create_database_def priv_format_create_database create_database_statement_def
      query_eq Let_def split: sum.splits)

lemma drop_database_eq:
  "drop_database drv w db =
     (case fst (execute drv (cursor w) (drop_database_statement db) []) of
        Inl m \<Rightarrow> Inl (DriverError m)
      | Inr n \<Rightarrow> Inr (Result success None),
      w\<lparr>cursor := snd (execute drv (cursor w) (drop_database_statement db) []),
        trace := trace w @ [Debug (drop_database_statement db) [],
                            Execute (drop_database_statement db) []]\<rparr>)"
  by (simp add: drop_database_def priv_format_drop_database drop_database_statement_def
      query_eq Let_def split: sum.splits)


lemma drops_if_presentD:
  assumes "drops_if_present accounts drv"
  shows "u \<notin> dom (accounts c) \<Longrightarrow> fst (execute drv c drop_user_sql [u]) = Inr 0"
    and "u \<notin> dom (accounts c) \<Longrightarrow> accounts (snd (execute drv c drop_user_sql [u])) = accounts c"
    and "u \<in> dom (accounts c) \<Longrightarrow> \<exists>n. fst (execute drv c drop_user_sql [u]) = Inr n \<and> n \<noteq> 0"
    and "u \<in> dom (accounts c) \<Longrightarrow> accounts (snd (execute drv c drop_user_sql [u])) = (accounts c)(u := None)"
  using assms [unfolded drops_if_present_def, rule_format, where c = c and u = u]
  by (auto split: prod.splits if_splits)

lemma read_quoted_replace:
  "rest = [] \<or> hd rest \<noteq> backtick \<Longrightarrow>
   read_quoted (replace lit backtick [backtick, backtick] @ backtick # rest) = Some (lit, rest)"
proof (induction lit)
  case Nil
  then show ?case by (cases rest) (auto simp: replace_def)
next
  case (Cons c lit)
  then show ?case
    by (cases "replace lit backtick [backtick, backtick] @ backtick # rest")
       (auto simp: replace_def)
qed

lemma read_identifier_quote:
  "rest = [] \<or> hd rest \<noteq> backtick \<Longrightarrow>
   read_identifier (quote_identifier lit @ rest) = Some (lit, rest)"
  by (simp add: read_identifier_def quote_identifier_def read_quoted_replace)

lemma list_databases_executed:
  "executed (trace (snd (list_databases drv w pat))) =
     executed (trace w) @ [(show_databases_sql, [pat])]"
  by (simp add: list_databases_def query_eq Let_def executed_append split: sum.splits prod.splits)

lemma warnings_append: "warnings (xs @ ys) = warnings xs @ warnings ys"
  by (induction xs rule: warnings.induct) simp_all

lemma grant_eq:
  "grant ms operator d m so =
     (if operator (grant_prompt m so) then Finished else Aborted,
      d\<lparr>sess := (if operator (grant_prompt m so) then add_society_admin ms (sess d) m so
                  else sess d),
        transcript := transcript d
          @ (if crsid m \<in> admin_crsids so
             then [Warned (''Warning: '' @ crsid m @ '' is already an admin of '' @ society so)]
             else [])
          @ [Asked (grant_prompt m so)]
          @ (if operator (grant_prompt m so) then [Add_society_admin m so] else [])\<rparr>)"
  by (simp add: grant_def error_def confirm_def grant_prompt_def Let_def)

lemma revoke_eq:
  "revoke ms operator d m so =
     (if operator (revoke_prompt m so) then Finished else Aborted,
      d\<lparr>sess := (if operator (revoke_prompt m so) then remove_society_admin ms (sess d) m so
                  else sess d),
        transcript := transcript d
          @ (if crsid m \<notin> admin_crsids so
             then [Warned (''Warning: '' @ crsid m @ '' is not an admin of '' @ society so)]
             else if admin_crsids so = {crsid m}
             then [Warned ''Warning: removing the only remaining admin'']
             else [])
          @ [Asked (revoke_prompt m so)]
          @ (if operator (revoke_prompt m so) then [Remove_society_admin m so] else [])\<rparr>)"
  by (simp add: revoke_def error_def confirm_def revoke_prompt_def Let_def)

lemma delete_eq:
  "delete ms operator d so =
     (if operator (delete_prompt so) then Finished else Aborted,
      d\<lparr>sess := (if operator (delete_prompt so) then delete_society ms (sess d) so
                  else sess d),
        transcript := transcript d
          @ [Asked (delete_prompt so)]
          @ (if operator (delete_prompt so) then [Delete_society so] else [])\<rparr>)"
  by (simp add: delete_def confirm_def delete_prompt_def Let_def)

text \<open>
  The messages of the scripts are written with \<open>@\<close> in the definitions; they are what
  \<^verbatim>\<open>str.format\<close> produces from the templates of the source.
\<close>

lemma script_messages:
  "str_format ''Warning: {} is already an admin of {}'' [a, b]
     = Inr (''Warning: '' @ a @ '' is already an admin of '' @ b)"
  "str_format ''Warning: {} is not an admin of {}'' [a, b]
     = Inr (''Warning: '' @ a @ '' is not an admin of '' @ b)"
  "str_format ''Add {} to {}?'' [a, b] = Inr (''Add '' @ a @ '' to '' @ b @ ''?'')"
  "str_format ''Remove {} from {}?'' [a, b] = Inr (''Remove '' @ a @ '' from '' @ b @ ''?'')"
  "str_format ''Delete {}?'' [a] = Inr (''Delete '' @ a @ ''?'')"
  by simp_all

text \<open>
  What \<open>priv_format\<close> does to the text, before the driver's substitution: the name is
  embedded as \<open>quote_identifier\<close> of it, reading that text as a quoted identifier gives
  back the name and leaves the template's own tail, and user names, passwords and the
  listing pattern only occur as bound parameters.
\<close>

lemma priv_format_embedding:
  fixes drv :: "'c driver"
  shows
  "priv_format grant_sql [db] = Inr (grant_statement db)
   \<and> priv_format revoke_sql [db] = Inr (revoke_statement db)
   \<and> priv_format create_database_sql [db] = Inr (create_database_statement db)
   \<and> priv_format drop_database_sql [db] = Inr (drop_database_statement db)
   \<and> grant_statement db = ''GRANT ALL ON '' @ quote_identifier db @ ''.* TO %s@'%%'' @ [apostrophe]
   \<and> revoke_statement db = ''REVOKE ALL ON '' @ quote_identifier db @ ''.* FROM %s@'%%'' @ [apostrophe]
   \<and> create_database_statement db = ''CREATE DATABASE IF NOT EXISTS '' @ quote_identifier db
   \<and> drop_database_statement db = ''DROP DATABASE IF EXISTS '' @ quote_identifier db
   \<and> quote_identifier db = [backtick] @ replace db backtick [backtick, backtick] @ [backtick]
   \<and> (rest = [] \<or> hd rest \<noteq> backtick \<longrightarrow>
        read_identifier (quote_identifier db @ rest) = Some (db, rest))
   \<and> read_identifier (quote_identifier db @ ''.* TO %s@'%%'' @ [apostrophe])
        = Some (db, ''.* TO %s@'%%'' @ [apostrophe])
   \<and> read_identifier (quote_identifier db @ ''.* FROM %s@'%%'' @ [apostrophe])
        = Some (db, ''.* FROM %s@'%%'' @ [apostrophe])
   \<and> read_identifier (quote_identifier db) = Some (db, [])
   \<and> executed (trace (snd (grant_database drv w u db :: (error + unit Result) \<times> 'c world)))
        = executed (trace w) @ [(grant_statement db, [u])]
   \<and> executed (trace (snd (revoke_database drv w u db :: (error + unit Result) \<times> 'c world)))
        = executed (trace w) @ [(revoke_statement db, [u])]
   \<and> executed (trace (snd (create_database drv w db :: (error + unit Result) \<times> 'c world)))
        = executed (trace w) @ [(create_database_statement db, [])]
   \<and> executed (trace (snd (drop_database drv w db :: (error + unit Result) \<times> 'c world)))
        = executed (trace w) @ [(drop_database_statement db, [])]
   \<and> executed (trace (snd (create_user drv w u)))
        = executed (trace w) @ [(create_user_sql, [u, str (entropy w (drawn w))])]
   \<and> executed (trace (snd (reset_password drv w u)))
        = executed (trace w) @ [(set_password_sql, [u, str (entropy w (drawn w))])]
   \<and> executed (trace (snd (drop_user drv w u :: (error + unit Result) \<times> 'c world)))
        = executed (trace w) @ [(drop_user_sql, [u])]
   \<and> executed (trace (snd (list_databases drv w pat)))
        = executed (trace w) @ [(show_databases_sql, [pat])]"
proof -
  have fmt:
    "priv_format grant_sql [db] = Inr (grant_statement db)"
    "priv_format revoke_sql [db] = Inr (revoke_statement db)"
    "priv_format create_database_sql [db] = Inr (create_database_statement db)"
    "priv_format drop_database_sql [db] = Inr (drop_database_statement db)"
    by (simp_all add: priv_format_grant priv_format_revoke priv_format_create_database
          priv_format_drop_database grant_statement_def revoke_statement_def
          create_database_statement_def drop_database_statement_def)
  have shape:
    "grant_statement db = ''GRANT ALL ON '' @ quote_identifier db @ ''.* TO %s@'%%'' @ [apostrophe]"
    "revoke_statement db = ''REVOKE ALL ON '' @ quote_identifier db @ ''.* FROM %s@'%%'' @ [apostrophe]"
    "create_database_statement db = ''CREATE DATABASE IF NOT EXISTS '' @ quote_identifier db"
    "drop_database_statement db = ''DROP DATABASE IF EXISTS '' @ quote_identifier db"
    "quote_identifier db = [backtick] @ replace db backtick [backtick, backtick] @ [backtick]"
    by (simp_all add: grant_statement_def revoke_statement_def create_database_statement_def
          drop_database_statement_def quote_identifier_def)
  have general: "rest = [] \<or> hd rest \<noteq> backtick \<longrightarrow>
        read_identifier (quote_identifier db @ rest) = Some (db, rest)"
    by (simp add: read_identifier_quote)
  have reread:
    "read_identifier (quote_identifier db @ ''.* TO %s@'%%'' @ [apostrophe])
        = Some (db, ''.* TO %s@'%%'' @ [apostrophe])"
    "read_identifier (quote_identifier db @ ''.* FROM %s@'%%'' @ [apostrophe])
        = Some (db, ''.* FROM %s@'%%'' @ [apostrophe])"
    "read_identifier (quote_identifier db) = Some (db, [])"
    using read_identifier_quote [of "''.* TO %s@'%%'' @ [apostrophe]" db]
          read_identifier_quote [of "''.* FROM %s@'%%'' @ [apostrophe]" db]
          read_identifier_quote [of "[]" db]
    by (simp_all add: backtick_def)
  have bound:
    "executed (trace (snd (grant_database drv w u db :: (error + unit Result) \<times> 'c world)))
        = executed (trace w) @ [(grant_statement db, [u])]"
    "executed (trace (snd (revoke_database drv w u db :: (error + unit Result) \<times> 'c world)))
        = executed (trace w) @ [(revoke_statement db, [u])]"
    "executed (trace (snd (create_database drv w db :: (error + unit Result) \<times> 'c world)))
        = executed (trace w) @ [(create_database_statement db, [])]"
    "executed (trace (snd (drop_database drv w db :: (error + unit Result) \<times> 'c world)))
        = executed (trace w) @ [(drop_database_statement db, [])]"
    "executed (trace (snd (create_user drv w u)))
        = executed (trace w) @ [(create_user_sql, [u, str (entropy w (drawn w))])]"
    "executed (trace (snd (reset_password drv w u)))
        = executed (trace w) @ [(set_password_sql, [u, str (entropy w (drawn w))])]"
    "executed (trace (snd (drop_user drv w u :: (error + unit Result) \<times> 'c world)))
        = executed (trace w) @ [(drop_user_sql, [u])]"
    by (simp_all add: grant_database_eq revoke_database_eq create_database_eq drop_database_eq
          create_user_eq reset_password_eq drop_user_eq executed_append)
  from fmt shape general reread bound list_databases_executed [of drv w pat]
  show ?thesis by blast
qed

lemma priv_format_embedding_example:
  "priv_format grant_sql [''foo`bar''] = Inr (''GRANT ALL ON `foo``bar`.* TO %s@'%%'' @ [apostrophe])
   \<and> hd ''; DROP DATABASE x'' \<noteq> backtick
   \<and> read_identifier (quote_identifier ''foo`bar'' @ ''; DROP DATABASE x'')
        = Some (''foo`bar'', ''; DROP DATABASE x'')
   \<and> read_identifier ''`foo``bar`.* TO'' = Some (''foo`bar'', ''.* TO'')"
  using priv_format_embedding [where db = "''foo`bar''" and rest = "''; DROP DATABASE x''"
                              and drv = mem_driver and w = "mem_world Map.empty 0"
                              and u = "''alice''" and pat = "''%''"]
        priv_format_embedding [where db = "''foo`bar''" and rest = "''.* TO''"
                              and drv = mem_driver and w = "mem_world Map.empty 0"
                              and u = "''alice''" and pat = "''%''"]
  by (simp add: backtick_def grant_statement_def quote_identifier_def replace_def)

text \<open>
  The substitution leaves a statement alone up to its first percent sign, and a quoted
  name without percent sign passes through it unchanged.
\<close>

lemma percent_format_plain:
  "CHR ''%'' \<noteq> c \<Longrightarrow> percent_format (c # r) args = map_sum id ((#) c) (percent_format r args)"
  by (cases r) auto

lemma percent_format_prefix:
  "CHR ''%'' \<notin> set s \<Longrightarrow> percent_format (s @ t) args = map_sum id ((@) s) (percent_format t args)"
proof (induction s)
  case Nil
  show ?case by (cases "percent_format t args") simp_all
next
  case (Cons c s)
  then show ?case
    by (cases "percent_format t args") (simp_all add: percent_format_plain)
qed

lemma quote_identifier_keeps_plain:
  "CHR ''%'' \<notin> set s \<Longrightarrow> CHR ''%'' \<notin> set (quote_identifier s)"
  by (induction s) (auto simp: quote_identifier_def replace_def backtick_def)

lemma substitution_without_percent:
  assumes "CHR ''%'' \<notin> set db"
  shows "percent_format (create_database_statement db) [] = Inr (create_database_statement db)"
    and "percent_format (drop_database_statement db) [] = Inr (drop_database_statement db)"
    and "percent_format (grant_statement db) [lit] =
           Inr (''GRANT ALL ON '' @ quote_identifier db @ ''.* TO '' @ lit @ ''@'%'' @ [apostrophe])"
    and "percent_format (revoke_statement db) [lit] =
           Inr (''REVOKE ALL ON '' @ quote_identifier db @ ''.* FROM '' @ lit @ ''@'%'' @ [apostrophe])"
proof -
  note q = quote_identifier_keeps_plain [OF assms]
  show "percent_format (create_database_statement db) [] = Inr (create_database_statement db)"
    using percent_format_prefix [of "''CREATE DATABASE IF NOT EXISTS '' @ quote_identifier db" "[]" "[]"] q
    by (simp add: create_database_statement_def)
  show "percent_format (drop_database_statement db) [] = Inr (drop_database_statement db)"
    using percent_format_prefix [of "''DROP DATABASE IF EXISTS '' @ quote_identifier db" "[]" "[]"] q
    by (simp add: drop_database_statement_def)
  show "percent_format (grant_statement db) [lit] =
           Inr (''GRANT ALL ON '' @ quote_identifier db @ ''.* TO '' @ lit @ ''@'%'' @ [apostrophe])"
    using percent_format_prefix [of "''GRANT ALL ON '' @ quote_identifier db @ ''.* TO ''"
            "''%s@'%%'' @ [apostrophe]" "[lit]"] q
    by (simp add: grant_statement_def apostrophe_def)
  show "percent_format (revoke_statement db) [lit] =
           Inr (''REVOKE ALL ON '' @ quote_identifier db @ ''.* FROM '' @ lit @ ''@'%'' @ [apostrophe])"
    using percent_format_prefix [of "''REVOKE ALL ON '' @ quote_identifier db @ ''.* FROM ''"
            "''%s@'%%'' @ [apostrophe]" "[lit]"] q
    by (simp add: revoke_statement_def apostrophe_def)
qed

section \<open>Properties of the user operations\<close>

text \<open>
  C1. For every user name, \<open>create_user\<close> draws one new password and issues the single
  statement \<^verbatim>\<open>CREATE USER IF NOT EXISTS\<close> with the name and the password text as bound
  parameters. It returns success carrying that password exactly when the statement
  reports a non-zero row count, and unchanged without payload exactly when it reports
  zero. On a server that reports as expected (\<open>creates_if_absent\<close>): an absent user is
  created with that password and the result is success; for a user that exists the
  result is unchanged and no account changes; a second call with the same name returns
  unchanged.
\<close>

theorem create_user_outcome:
  fixes drv :: "'c driver" and accounts :: "'c \<Rightarrow> string \<rightharpoonup> string"
  shows
  "(let p = entropy w (drawn w);
        stmt = execute drv (cursor w) create_user_sql [u, str p];
        r = fst (create_user drv w u);
        w' = snd (create_user drv w u)
    in drawn w' = Suc (drawn w)
     \<and> executed (trace w') = executed (trace w) @ [(create_user_sql, [u, str p])]
     \<and> cursor w' = snd stmt
     \<and> (r = Inr (Result success (Some p)) \<longleftrightarrow> (\<exists>n. fst stmt = Inr n \<and> n \<noteq> 0))
     \<and> (r = Inr (Result unchanged None) \<longleftrightarrow> fst stmt = Inr 0)
     \<and> (creates_if_absent accounts drv \<longrightarrow>
          (u \<notin> dom (accounts (cursor w)) \<longrightarrow>
             r = Inr (Result success (Some p)) \<and> accounts (cursor w') u = Some (str p))
        \<and> (u \<in> dom (accounts (cursor w)) \<longrightarrow>
             r = Inr (Result unchanged None) \<and> accounts (cursor w') = accounts (cursor w))
        \<and> fst (create_user drv w' u) = Inr (Result unchanged None)))"
proof -
  let ?p = "entropy w (drawn w)"
  let ?stmt = "execute drv (cursor w) create_user_sql [u, str ?p]"
  let ?r = "fst (create_user drv w u)"
  let ?w' = "snd (create_user drv w u)"
  have drawn: "drawn ?w' = Suc (drawn w)"
    by (simp add: create_user_eq)
  have ex: "executed (trace ?w') = executed (trace w) @ [(create_user_sql, [u, str ?p])]"
    by (simp add: create_user_eq executed_append)
  have cur: "cursor ?w' = snd ?stmt"
    by (simp add: create_user_eq)
  have succ: "?r = Inr (Result success (Some ?p)) \<longleftrightarrow> (\<exists>n. fst ?stmt = Inr n \<and> n \<noteq> 0)"
    by (auto simp: create_user_eq split: sum.splits)
  have unch: "?r = Inr (Result unchanged None) \<longleftrightarrow> fst ?stmt = Inr 0"
    by (auto simp: create_user_eq split: sum.splits)
  have contract: "(u \<notin> dom (accounts (cursor w)) \<longrightarrow>
             ?r = Inr (Result success (Some ?p)) \<and> accounts (cursor ?w') u = Some (str ?p))
        \<and> (u \<in> dom (accounts (cursor w)) \<longrightarrow>
             ?r = Inr (Result unchanged None) \<and> accounts (cursor ?w') = accounts (cursor w))
        \<and> fst (create_user drv ?w' u) = Inr (Result unchanged None)"
    if c: "creates_if_absent accounts drv"
  proof -
    have absent: "?r = Inr (Result success (Some ?p)) \<and> accounts (cursor ?w') u = Some (str ?p)"
      if "u \<notin> dom (accounts (cursor w))"
      using creates_if_absentD(3,4) [OF c that, of "str ?p"] succ cur by auto
    have present: "?r = Inr (Result unchanged None) \<and> accounts (cursor ?w') = accounts (cursor w)"
      if "u \<in> dom (accounts (cursor w))"
      using creates_if_absentD(1,2) [OF c that, of "str ?p"] unch cur by auto
    have "u \<in> dom (accounts (cursor ?w'))"
      using absent present by (cases "u \<in> dom (accounts (cursor w))") auto
    then have "fst (create_user drv ?w' u) = Inr (Result unchanged None)"
      using creates_if_absentD(1) [OF c, of u "cursor ?w'"] by (simp add: create_user_eq)
    with absent present show ?thesis by blast
  qed
  show ?thesis
    unfolding Let_def using drawn ex cur succ unch contract by blast
qed

theorem create_user_outcome_witness:
  "creates_if_absent users mem_driver
   \<and> ''alice'' \<notin> dom (users (cursor (mem_world Map.empty 0)))
   \<and> fst (create_user mem_driver (mem_world Map.empty 0) ''alice'')
       = Inr (Result success (Some (Password ''pw'')))
   \<and> users (cursor (snd (create_user mem_driver (mem_world Map.empty 0) ''alice''))) ''alice''
       = Some ''pw''
   \<and> ''bob'' \<in> dom (users (cursor (mem_world [''bob'' \<mapsto> ''old''] 0)))
   \<and> fst (create_user mem_driver (mem_world [''bob'' \<mapsto> ''old''] 0) ''bob'')
       = Inr (Result unchanged None)
   \<and> users (cursor (snd (create_user mem_driver (mem_world [''bob'' \<mapsto> ''old''] 0) ''bob'')))
       = [''bob'' \<mapsto> ''old'']"
  using create_user_outcome [where w = "mem_world Map.empty 0" and u = "''alice''"
                             and drv = mem_driver and accounts = users]
        create_user_outcome [where w = "mem_world [''bob'' \<mapsto> ''old''] 0" and u = "''bob''"
                             and drv = mem_driver and accounts = users]
        mem_creates
  by (simp add: Let_def mem_world_def mem_driver_def mem_execute_def)



text \<open>
  C6. \<open>drop_user\<close> returns success exactly when the statement \<^verbatim>\<open>DROP USER IF EXISTS\<close>
  reports a non-zero row count and unchanged exactly when it reports zero. On a server
  that reports as expected (\<open>drops_if_present\<close>) this is success exactly when the user
  was present and unchanged exactly when absent; after the call the user is absent, and
  an immediately following call with the same name returns unchanged.
\<close>

theorem drop_user_idempotent:
  fixes drv :: "'c driver" and accounts :: "'c \<Rightarrow> string \<rightharpoonup> string"
  shows
  "(let stmt = execute drv (cursor w) drop_user_sql [u];
        r1 = fst (drop_user drv w u) :: error + unit Result;
        w1 = snd (drop_user drv w u :: (error + unit Result) \<times> 'c world);
        r2 = fst (drop_user drv w1 u) :: error + unit Result
    in executed (trace w1) = executed (trace w) @ [(drop_user_sql, [u])]
     \<and> cursor w1 = snd stmt
     \<and> (r1 = Inr (Result success None) \<longleftrightarrow> (\<exists>n. fst stmt = Inr n \<and> n \<noteq> 0))
     \<and> (r1 = Inr (Result unchanged None) \<longleftrightarrow> fst stmt = Inr 0)
     \<and> (drops_if_present accounts drv \<longrightarrow>
          (r1 = Inr (Result success None) \<longleftrightarrow> u \<in> dom (accounts (cursor w)))
        \<and> (r1 = Inr (Result unchanged None) \<longleftrightarrow> u \<notin> dom (accounts (cursor w)))
        \<and> u \<notin> dom (accounts (cursor w1))
        \<and> r2 = Inr (Result unchanged None)))"
proof -
  let ?stmt = "execute drv (cursor w) drop_user_sql [u]"
  let ?r1 = "fst (drop_user drv w u) :: error + unit Result"
  let ?w1 = "snd (drop_user drv w u :: (error + unit Result) \<times> 'c world)"
  let ?r2 = "fst (drop_user drv ?w1 u) :: error + unit Result"
  have ex: "executed (trace ?w1) = executed (trace w) @ [(drop_user_sql, [u])]"
    by (simp add: drop_user_eq executed_append)
  have cur: "cursor ?w1 = snd ?stmt"
    by (simp add: drop_user_eq)
  have succ: "?r1 = Inr (Result success None) \<longleftrightarrow> (\<exists>n. fst ?stmt = Inr n \<and> n \<noteq> 0)"
    by (auto simp: drop_user_eq split: sum.splits)
  have unch: "?r1 = Inr (Result unchanged None) \<longleftrightarrow> fst ?stmt = Inr 0"
    by (auto simp: drop_user_eq split: sum.splits)
  have contract:
    "(?r1 = Inr (Result success None) \<longleftrightarrow> u \<in> dom (accounts (cursor w)))
     \<and> (?r1 = Inr (Result unchanged None) \<longleftrightarrow> u \<notin> dom (accounts (cursor w)))
     \<and> u \<notin> dom (accounts (cursor ?w1))
     \<and> ?r2 = Inr (Result unchanged None)"
    if c: "drops_if_present accounts drv"
  proof -
    have first: "(?r1 = Inr (Result success None) \<longleftrightarrow> u \<in> dom (accounts (cursor w)))
       \<and> (?r1 = Inr (Result unchanged None) \<longleftrightarrow> u \<notin> dom (accounts (cursor w)))
       \<and> u \<notin> dom (accounts (cursor ?w1))"
    proof (cases "u \<in> dom (accounts (cursor w))")
      case True
      from drops_if_presentD(3,4) [OF c True] succ unch cur True
      show ?thesis by auto
    next
      case False
      from drops_if_presentD(1,2) [OF c False] succ unch cur False
      show ?thesis by auto
    qed
    then have gone: "u \<notin> dom (accounts (cursor ?w1))" by blast
    have "?r2 = Inr (Result unchanged None)"
      using drops_if_presentD(1) [OF c gone] by (simp add: drop_user_eq)
    with first show ?thesis by blast
  qed
  show ?thesis
    unfolding Let_def using ex cur succ unch contract by blast
qed

theorem drop_user_idempotent_witness:
  "drops_if_present users mem_driver
   \<and> ''bob'' \<in> dom (users (cursor (mem_world [''bob'' \<mapsto> ''old''] 0)))
   \<and> fst (drop_user mem_driver (mem_world [''bob'' \<mapsto> ''old''] 0) ''bob'')
       = Inr (Result success (None :: unit option))
   \<and> fst (drop_user mem_driver
            (snd (drop_user mem_driver (mem_world [''bob'' \<mapsto> ''old''] 0) ''bob''
                  :: (error + unit Result) \<times> server world)) ''bob'')
       = Inr (Result unchanged (None :: unit option))
   \<and> ''ghost'' \<notin> dom (users (cursor (mem_world [''bob'' \<mapsto> ''old''] 0)))
   \<and> fst (drop_user mem_driver (mem_world [''bob'' \<mapsto> ''old''] 0) ''ghost'')
       = Inr (Result unchanged (None :: unit option))"
  using drop_user_idempotent [where w = "mem_world [''bob'' \<mapsto> ''old''] 0" and u = "''bob''"
                              and drv = mem_driver and accounts = users]
        drop_user_idempotent [where w = "mem_world [''bob'' \<mapsto> ''old''] 0" and u = "''ghost''"
                              and drv = mem_driver and accounts = users]
        mem_drops
  by (simp add: Let_def mem_world_def mem_driver_def mem_execute_def sql_distinct)

text \<open>
  C10. On every call of \<open>create_user\<close> and of \<open>reset_password\<close>, whatever the cursor
  answers, the first thing that happens is the debug log call of \<open>query\<close>, and the
  argument tuple it is handed contains the \<open>Password\<close> object just drawn; the statement
  is executed after it. The same password is the payload of a success result.
\<close>

theorem password_reaches_logger:
  fixes drv :: "'c driver"
  shows
  "(let p = entropy w (drawn w)
    in trace (snd (create_user drv w u)) =
         trace w @ [Debug create_user_sql [Str u, Pw p], Execute create_user_sql [u, str p]]
     \<and> trace (snd (reset_password drv w u)) =
         trace w @ [Debug set_password_sql [Str u, Pw p], Execute set_password_sql [u, str p]]
     \<and> logged (trace (snd (create_user drv w u))) =
         logged (trace w) @ [(create_user_sql, [Str u, Pw p])]
     \<and> logged (trace (snd (reset_password drv w u))) =
         logged (trace w) @ [(set_password_sql, [Str u, Pw p])]
     \<and> (\<forall>q. fst (create_user drv w u) = Inr (Result success (Some q)) \<longrightarrow> q = p)
     \<and> (\<forall>q. fst (reset_password drv w u) = Inr (Result success (Some q)) \<longrightarrow> q = p))"
  by (auto simp: create_user_eq reset_password_eq logged_append Let_def
       split: sum.splits if_splits)

theorem password_reaches_logger_witness:
  "fst (create_user mem_driver (mem_world Map.empty 0) ''alice'')
     = Inr (Result success (Some (Password ''pw'')))
   \<and> trace (snd (create_user mem_driver (mem_world Map.empty 0) ''alice''))
     = [Debug create_user_sql [Str ''alice'', Pw (Password ''pw'')],
        Execute create_user_sql [''alice'', ''pw'']]
   \<and> fst (reset_password mem_driver (mem_world [''bob'' \<mapsto> ''old''] 0) ''bob'')
     = Inr (Result success (Some (Password ''pw'')))
   \<and> logged (trace (snd (reset_password mem_driver (mem_world [''bob'' \<mapsto> ''old''] 0) ''bob'')))
     = [(set_password_sql, [Str ''bob'', Pw (Password ''pw'')])]
   \<and> logged (trace (snd (reset_password mem_driver (mem_world Map.empty 0) ''ghost'')))
     = [(set_password_sql, [Str ''ghost'', Pw (Password ''pw'')])]"
  using password_reaches_logger [where drv = mem_driver and w = "mem_world Map.empty 0"
                                 and u = "''alice''"]
        password_reaches_logger [where drv = mem_driver and w = "mem_world [''bob'' \<mapsto> ''old''] 0"
                                 and u = "''bob''"]
        password_reaches_logger [where drv = mem_driver and w = "mem_world Map.empty 0"
                                 and u = "''ghost''"]
  by (simp add: Let_def mem_world_def mem_driver_def mem_execute_def sql_distinct
        create_user_eq reset_password_eq)

section \<open>Properties of the privilege and database operations\<close>

text \<open>
  C3. That every database name comes back as one literal identifier does not hold of the
  code. \<open>priv_format\<close> doubles the backticks of the name and leaves its percent signs
  alone, and \<open>query\<close> hands the text to the cursor together with a parameter list, so
  that the text undergoes the driver's substitution. For the name \<^verbatim>\<open>a%%b\<close>,
  \<open>create_database\<close> executes \<^verbatim>\<open>CREATE DATABASE IF NOT EXISTS `a%%b`\<close> with no
  parameters; the substitution makes it \<^verbatim>\<open>CREATE DATABASE IF NOT EXISTS `a%b`\<close>, in which
  the server reads the identifier \<^verbatim>\<open>a%b\<close>, another name. For the name \<^verbatim>\<open>a%sb\<close> the
  statement of \<open>grant_database\<close> has one placeholder more than it has parameters and
  the substitution raises, whatever the rendering of the parameter. (For a name without
  percent sign the name does come back, see \<open>priv_format_embedding\<close> and
  \<open>substitution_without_percent\<close>.)
\<close>

theorem identifier_percent_unescaped:
  "executed (trace (snd (create_database mem_driver (mem_world Map.empty 0) ''a%%b''
                         :: (error + unit Result) \<times> server world)))
     = [(''CREATE DATABASE IF NOT EXISTS `a%%b`'', [])]
   \<and> percent_format ''CREATE DATABASE IF NOT EXISTS `a%%b`'' []
     = Inr ''CREATE DATABASE IF NOT EXISTS `a%b`''
   \<and> read_identifier ''`a%b`'' = Some (''a%b'', [])
   \<and> ''a%b'' \<noteq> ''a%%b''
   \<and> executed (trace (snd (grant_database mem_driver (mem_world Map.empty 0) ''alice'' ''a%sb''
                           :: (error + unit Result) \<times> server world)))
     = [(''GRANT ALL ON `a%sb`.* TO %s@'%%'' @ [apostrophe], [''alice''])]
   \<and> (\<forall>literal. percent_format (''GRANT ALL ON `a%sb`.* TO %s@'%%'' @ [apostrophe])
                     (map literal [''alice''])
        = Inl NotEnoughArguments)"
  by (simp add: create_database_eq grant_database_eq create_database_statement_def
        grant_statement_def quote_identifier_def replace_def backtick_def apostrophe_def
        mem_world_def read_identifier_def)

text \<open>
  C4. \<open>create_database\<close> and \<open>drop_database\<close> return success without payload
  whenever the statement returns, whatever row count it reports, and never return
  unchanged; a second \<open>create_database\<close> with the same name, run on the cursor the
  first one left, is success again. (An exception of the cursor is not caught and
  propagates.)
\<close>

theorem database_always_success:
  fixes drv :: "'c driver"
  shows
  "(let stmt = create_database_statement db;
        w1 = snd (create_database drv w db :: (error + unit Result) \<times> 'c world)
    in fst (create_database drv w db) =
         (case fst (execute drv (cursor w) stmt []) of
            Inl m \<Rightarrow> Inl (DriverError m)
          | Inr n \<Rightarrow> Inr (Result success (None :: unit option)))
     \<and> cursor w1 = snd (execute drv (cursor w) stmt [])
     \<and> fst (create_database drv w1 db) =
         (case fst (execute drv (cursor w1) stmt []) of
            Inl m \<Rightarrow> Inl (DriverError m)
          | Inr n \<Rightarrow> Inr (Result success (None :: unit option))))
   \<and> fst (drop_database drv w db) =
         (case fst (execute drv (cursor w) (drop_database_statement db) []) of
            Inl m \<Rightarrow> Inl (DriverError m)
          | Inr n \<Rightarrow> Inr (Result success (None :: unit option)))
   \<and> (\<forall>x :: unit option. fst (create_database drv w db) \<noteq> Inr (Result unchanged x))
   \<and> (\<forall>x :: unit option. fst (drop_database drv w db) \<noteq> Inr (Result unchanged x))"
  by (simp add: create_database_eq drop_database_eq Let_def split: sum.splits)

theorem database_always_success_witness:
  "fst (create_database mem_driver (mem_world Map.empty 1) ''wiki'')
     = Inr (Result success (None :: unit option))
   \<and> fst (create_database mem_driver
           (snd (create_database mem_driver (mem_world Map.empty 1) ''wiki''
                 :: (error + unit Result) \<times> server world)) ''wiki'')
     = Inr (Result success (None :: unit option))
   \<and> fst (create_database mem_driver (mem_world Map.empty 0) ''wiki'')
     = Inr (Result success (None :: unit option))
   \<and> fst (drop_database mem_driver (mem_world Map.empty 0) ''wiki'')
     = Inr (Result success (None :: unit option))
   \<and> fst (drop_database mem_driver (mem_world Map.empty 1) ''wiki'')
     = Inr (Result success (None :: unit option))"
  using database_always_success [where drv = mem_driver and w = "mem_world Map.empty 1"
                                 and db = "''wiki''"]
        database_always_success [where drv = mem_driver and w = "mem_world Map.empty 0"
                                 and db = "''wiki''"]
  by (simp add: Let_def mem_world_def mem_driver_def mem_execute_def
        create_database_statement_def drop_database_statement_def
        create_user_sql_def set_password_sql_def drop_user_sql_def)

text \<open>
  C5. \<open>grant_database\<close> and \<open>revoke_database\<close> execute one statement with the user as
  bound parameter and return success when it reports a non-zero row count and unchanged
  when it reports zero, in both cases without payload.
\<close>

theorem grant_revoke_outcome:
  fixes drv :: "'c driver"
  shows
  "fst (grant_database drv w user db) =
     (case fst (execute drv (cursor w) (grant_statement db) [user]) of
        Inl m \<Rightarrow> Inl (DriverError m)
      | Inr n \<Rightarrow> Inr (Result (if n \<noteq> 0 then success else unchanged) (None :: unit option)))
   \<and> fst (revoke_database drv w user db) =
     (case fst (execute drv (cursor w) (revoke_statement db) [user]) of
        Inl m \<Rightarrow> Inl (DriverError m)
      | Inr n \<Rightarrow> Inr (Result (if n \<noteq> 0 then success else unchanged) (None :: unit option)))
   \<and> executed (trace (snd (grant_database drv w user db :: (error + unit Result) \<times> 'c world)))
       = executed (trace w) @ [(grant_statement db, [user])]
   \<and> executed (trace (snd (revoke_database drv w user db :: (error + unit Result) \<times> 'c world)))
       = executed (trace w) @ [(revoke_statement db, [user])]"
  by (simp add: grant_database_eq revoke_database_eq executed_append)

theorem grant_revoke_outcome_witness:
  "fst (grant_database mem_driver (mem_world Map.empty 1) ''alice'' ''wiki'')
     = Inr (Result success (None :: unit option))
   \<and> fst (grant_database mem_driver (mem_world Map.empty 0) ''alice'' ''wiki'')
     = Inr (Result unchanged (None :: unit option))
   \<and> fst (revoke_database mem_driver (mem_world Map.empty 2) ''alice'' ''wiki'')
     = Inr (Result success (None :: unit option))
   \<and> fst (revoke_database mem_driver (mem_world Map.empty 0) ''alice'' ''wiki'')
     = Inr (Result unchanged (None :: unit option))"
  using grant_revoke_outcome [where drv = mem_driver and w = "mem_world Map.empty 1"
                              and user = "''alice''" and db = "''wiki''"]
        grant_revoke_outcome [where drv = mem_driver and w = "mem_world Map.empty 0"
                              and user = "''alice''" and db = "''wiki''"]
        grant_revoke_outcome [where drv = mem_driver and w = "mem_world Map.empty 2"
                              and user = "''alice''" and db = "''wiki''"]
  by (simp add: mem_world_def mem_driver_def mem_execute_def grant_statement_def
        revoke_statement_def create_user_sql_def set_password_sql_def drop_user_sql_def)

section \<open>Properties of the membership scripts\<close>

text \<open>
  C7. In each of the scripts \<open>grant\<close>, \<open>revoke\<close> and \<open>delete\<close> the transcript only
  grows, the prompt is always put to the operator, and no call into the membership
  collaborator occurs before the prompt. When the operator declines, the script is
  aborted, the record store is what it was and no such call occurs at all.
\<close>

theorem confirmation_precedes_mutation:
  "(let d' = snd (grant ms operator d m so);
        new = drop (length (transcript d)) (transcript d')
    in transcript d' = transcript d @ new
     \<and> Asked (grant_prompt m so) \<in> set new
     \<and> filter is_mutation (takeWhile (\<lambda>e. e \<noteq> Asked (grant_prompt m so)) new) = []
     \<and> (\<not> operator (grant_prompt m so) \<longrightarrow>
          fst (grant ms operator d m so) = Aborted \<and> sess d' = sess d
          \<and> filter is_mutation new = []))
   \<and> (let d' = snd (revoke ms operator d m so);
        new = drop (length (transcript d)) (transcript d')
    in transcript d' = transcript d @ new
     \<and> Asked (revoke_prompt m so) \<in> set new
     \<and> filter is_mutation (takeWhile (\<lambda>e. e \<noteq> Asked (revoke_prompt m so)) new) = []
     \<and> (\<not> operator (revoke_prompt m so) \<longrightarrow>
          fst (revoke ms operator d m so) = Aborted \<and> sess d' = sess d
          \<and> filter is_mutation new = []))
   \<and> (let d' = snd (delete ms operator d so);
        new = drop (length (transcript d)) (transcript d')
    in transcript d' = transcript d @ new
     \<and> Asked (delete_prompt so) \<in> set new
     \<and> filter is_mutation (takeWhile (\<lambda>e. e \<noteq> Asked (delete_prompt so)) new) = []
     \<and> (\<not> operator (delete_prompt so) \<longrightarrow>
          fst (delete ms operator d so) = Aborted \<and> sess d' = sess d
          \<and> filter is_mutation new = []))"
  by (simp add: grant_eq revoke_eq delete_eq Let_def)

theorem confirmation_precedes_mutation_witness:
  "\<not> (\<lambda>_. False) (grant_prompt alice (chess {''xyz99''}))
   \<and> grant mem_membership (\<lambda>_. False) mem_desk alice (chess {''xyz99''})
     = (Aborted, \<lparr>sess = (\<lambda>_. {}), transcript = [Asked ''Add Alice to Chess Club?'']\<rparr>)
   \<and> revoke mem_membership (\<lambda>_. False) mem_desk alice (chess {''abc12''})
     = (Aborted, \<lparr>sess = (\<lambda>_. {}),
                  transcript = [Warned ''Warning: removing the only remaining admin'',
                                Asked ''Remove Alice from Chess Club?'']\<rparr>)
   \<and> delete mem_membership (\<lambda>_. False) mem_desk (chess {''abc12''})
     = (Aborted, \<lparr>sess = (\<lambda>_. {}), transcript = [Asked ''Delete Chess Club?'']\<rparr>)"
  using confirmation_precedes_mutation [where ms = mem_membership and operator = "\<lambda>_. False"
          and d = mem_desk and m = alice and so = "chess {''xyz99''}"]
        confirmation_precedes_mutation [where ms = mem_membership and operator = "\<lambda>_. False"
          and d = mem_desk and m = alice and so = "chess {''abc12''}"]
  by (simp add: grant_eq revoke_eq delete_eq grant_prompt_def revoke_prompt_def delete_prompt_def
        alice_def chess_def mem_desk_def)

text \<open>
  C8. \<open>revoke\<close> prints a warning exactly when the member's crsid is not in the
  society's admin set or the admin set is the singleton of that crsid, and at most one.
  With or without warning the operator is asked next, and when the operator confirms
  the removal is delegated to the membership collaborator.
\<close>

theorem revoke_warns_and_proceeds:
  "(let d' = snd (revoke ms operator d m so);
        new = drop (length (transcript d)) (transcript d')
    in transcript d' = transcript d @ new
     \<and> (warnings new \<noteq> [] \<longleftrightarrow>
          crsid m \<notin> admin_crsids so \<or> admin_crsids so = {crsid m})
     \<and> length (warnings new) \<le> 1
     \<and> new = map Warned (warnings new) @ [Asked (revoke_prompt m so)]
              @ (if operator (revoke_prompt m so) then [Remove_society_admin m so] else [])
     \<and> (operator (revoke_prompt m so) \<longrightarrow>
          fst (revoke ms operator d m so) = Finished
          \<and> sess d' = remove_society_admin ms (sess d) m so))"
  by (simp add: revoke_eq Let_def)

theorem revoke_warns_and_proceeds_witness:
  "admin_crsids (chess {''abc12''}) = {crsid alice}
   \<and> revoke mem_membership (\<lambda>_. True) (mem_desk\<lparr>sess := (\<lambda>_. {''abc12''})\<rparr>) alice (chess {''abc12''})
     = (Finished,
        \<lparr>sess = (\<lambda>_. {''abc12''})(''chess'' := {}),
         transcript = [Warned ''Warning: removing the only remaining admin'',
                       Asked ''Remove Alice from Chess Club?'',
                       Remove_society_admin alice (chess {''abc12''})]\<rparr>)
   \<and> crsid alice \<notin> admin_crsids (chess {''xyz99''})
   \<and> transcript (snd (revoke mem_membership (\<lambda>_. True) mem_desk alice (chess {''xyz99''})))
     = [Warned ''Warning: abc12 is not an admin of chess'',
        Asked ''Remove Alice from Chess Club?'',
        Remove_society_admin alice (chess {''xyz99''})]
   \<and> transcript (snd (revoke mem_membership (\<lambda>_. True) mem_desk alice (chess {''abc12'', ''xyz99''})))
     = [Asked ''Remove Alice from Chess Club?'',
        Remove_society_admin alice (chess {''abc12'', ''xyz99''})]"
  using revoke_warns_and_proceeds [where ms = mem_membership and operator = "\<lambda>_. True"
          and d = "mem_desk\<lparr>sess := (\<lambda>_. {''abc12''})\<rparr>" and m = alice and so = "chess {''abc12''}"]
        revoke_warns_and_proceeds [where ms = mem_membership and operator = "\<lambda>_. True"
          and d = mem_desk and m = alice and so = "chess {''xyz99''}"]
        revoke_warns_and_proceeds [where ms = mem_membership and operator = "\<lambda>_. True"
          and d = mem_desk and m = alice and so = "chess {''abc12'', ''xyz99''}"]
  by (auto simp: revoke_eq revoke_prompt_def alice_def chess_def mem_desk_def mem_membership_def)

text \<open>
  C9. \<open>grant\<close> prints a warning exactly when the member's crsid is already in the
  society's admin set. With or without warning the operator is asked next, and when the
  operator confirms the addition is delegated to the membership collaborator.
\<close>

theorem grant_warns_and_proceeds:
  "(let d' = snd (grant ms operator d m so);
        new = drop (length (transcript d)) (transcript d')
    in transcript d' = transcript d @ new
     \<and> (warnings new \<noteq> [] \<longleftrightarrow> crsid m \<in> admin_crsids so)
     \<and> (crsid m \<in> admin_crsids so \<longrightarrow>
          warnings new = [''Warning: '' @ crsid m @ '' is already an admin of '' @ society so])
     \<and> new = map Warned (warnings new) @ [Asked (grant_prompt m so)]
              @ (if operator (grant_prompt m so) then [Add_society_admin m so] else [])
     \<and> (operator (grant_prompt m so) \<longrightarrow>
          fst (grant ms operator d m so) = Finished
          \<and> sess d' = add_society_admin ms (sess d) m so))"
  by (simp add: grant_eq Let_def)

theorem grant_warns_and_proceeds_witness:
  "crsid alice \<in> admin_crsids (chess {''abc12'', ''xyz99''})
   \<and> grant mem_membership (\<lambda>_. True) mem_desk alice (chess {''abc12'', ''xyz99''})
     = (Finished,
        \<lparr>sess = (\<lambda>_. {})(''chess'' := {''abc12''}),
         transcript = [Warned ''Warning: abc12 is already an admin of chess'',
                       Asked ''Add Alice to Chess Club?'',
                       Add_society_admin alice (chess {''abc12'', ''xyz99''})]\<rparr>)
   \<and> crsid alice \<notin> admin_crsids (chess {''xyz99''})
   \<and> transcript (snd (grant mem_membership (\<lambda>_. True) mem_desk alice (chess {''xyz99''})))
     = [Asked ''Add Alice to Chess Club?'', Add_society_admin alice (chess {''xyz99''})]"
  using grant_warns_and_proceeds [where ms = mem_membership and operator = "\<lambda>_. True"
          and d = mem_desk and m = alice and so = "chess {''abc12'', ''xyz99''}"]
        grant_warns_and_proceeds [where ms = mem_membership and operator = "\<lambda>_. True"
          and d = mem_desk and m = alice and so = "chess {''xyz99''}"]
  by (simp add: grant_eq grant_prompt_def alice_def chess_def mem_desk_def mem_membership_def)

end
